theory Spec2Isabelle
  imports Main
begin

section \<open>The resource-definition interface used by the stacks\<close>

text \<open>
  The repository is declarative wiring over an infrastructure-definition framework:
  every constructor call registers a child construct in the scope it is given and returns
  a handle. The scope is mutated in the source; here it is passed in and returned.
  The framework's own validation (name syntax, duplicate construct ids) is not part of
  this repository and is not modelled: every operation below is total.
\<close>

record StackProps =
  description :: "string option"
  terminationProtection :: "bool option"

datatype AttributeType = BINARY | NUMBER | STRING

record Attribute =
  name :: string
  type :: AttributeType

text \<open>
  A string-typed property is either a literal written in the definition or a reference to
  the name of a table resource that some stack defines (stack id, construct id). The
  narrative of the repository shows the second kind in the generated artifact of the
  consuming stack: the environment variable \<^verbatim>\<open>USER_TABLE\<close> holds an
  \<^verbatim>\<open>Fn::ImportValue\<close> of the producing stack's export, not a string.
  The source types both kinds as \<^verbatim>\<open>string\<close>, so a name handed to the
  configuration-based consuming unit can be either. The name of a table that a producing
  unit defines is kept as the string written in the definition.
\<close>

datatype tvalue =
    Literal string
  | TableNameOf string string

record TableAttributesV2 =
  tableName :: tvalue
  globalIndexes :: "string list"

record TablePropsV2 =
  tableName :: string
  partitionKey :: Attribute

text \<open>
  A table handle is obtained either from \<^verbatim>\<open>new TableV2(scope, id, props)\<close>, and then
  denotes the resource defined by construct \<open>id\<close> of stack \<open>scope\<close>, or from
  \<^verbatim>\<open>TableV2.fromTableAttributes(scope, id, attrs)\<close>, and then carries only the
  attributes it was built from.
\<close>

datatype ITableV2 =
    DefinedTable string string
  | ImportedTable string string TableAttributesV2

datatype IFunction = DefinedFunction string string

record NodejsFunctionProps =
  entry :: string
  environment :: "(string \<times> tvalue) list"

datatype construct =
    TableResource string TablePropsV2
  | TableImport string TableAttributesV2
  | FunctionResource string NodejsFunctionProps
  | ReadGrant ITableV2 IFunction

record Stack =
  stackId :: string
  stackProps :: "StackProps option"
  children :: "construct list"

record App =
  stacks :: "Stack list"

definition new_App :: App where
  "new_App = \<lparr>stacks = []\<rparr>"

text \<open>\<^verbatim>\<open>super(scope, id, props)\<close>: a stack with no children yet.\<close>

definition new_Stack :: "string \<Rightarrow> StackProps option \<Rightarrow> Stack" where
  "new_Stack i props = \<lparr>stackId = i, stackProps = props, children = []\<rparr>"

text \<open>The finished stack becomes a child of the scope it was constructed in.\<close>

definition addChild :: "App \<Rightarrow> Stack \<Rightarrow> App" where
  "addChild scope st = scope\<lparr>stacks := stacks scope @ [st]\<rparr>"

definition addConstruct :: "Stack \<Rightarrow> construct \<Rightarrow> Stack" where
  "addConstruct this c = this\<lparr>children := children this @ [c]\<rparr>"

definition new_TableV2 :: "Stack \<Rightarrow> string \<Rightarrow> TablePropsV2 \<Rightarrow> ITableV2 \<times> Stack" where
  "new_TableV2 this i props =
     (DefinedTable (stackId this) i, addConstruct this (TableResource i props))"

definition fromTableAttributes ::
  "Stack \<Rightarrow> string \<Rightarrow> TableAttributesV2 \<Rightarrow> ITableV2 \<times> Stack" where
  "fromTableAttributes this i attrs =
     (ImportedTable (stackId this) i attrs, addConstruct this (TableImport i attrs))"

text \<open>
  A function is registered with the environment that the source passes. The framework may
  add variables of its own to a function; no statement below says that a function has no
  other variable than those the source sets.
\<close>

definition new_NodejsFunction ::
  "Stack \<Rightarrow> string \<Rightarrow> NodejsFunctionProps \<Rightarrow> IFunction \<times> Stack" where
  "new_NodejsFunction this i props =
     (DefinedFunction (stackId this) i, addConstruct this (FunctionResource i props))"

text \<open>
  \<^verbatim>\<open>table.grantReadData(grantee)\<close> is called inside the constructor of the stack
  that defines the grantee; the grant is declared in that stack.
\<close>

definition grantReadData :: "ITableV2 \<Rightarrow> IFunction \<Rightarrow> Stack \<Rightarrow> Stack" where
  "grantReadData table grantee this = addConstruct this (ReadGrant table grantee)"

text \<open>
  The attribute \<^verbatim>\<open>.tableName\<close> of a handle, and the index metadata a handle
  carries: a re-resolved handle knows the indexes it was told about, nothing else.
\<close>

fun tableName_of :: "ITableV2 \<Rightarrow> tvalue" where
  "tableName_of (DefinedTable s c) = TableNameOf s c"
| "tableName_of (ImportedTable s c attrs) = TableAttributesV2.tableName attrs"

fun globalIndexes_of :: "ITableV2 \<Rightarrow> string list option" where
  "globalIndexes_of (DefinedTable s c) = None"
| "globalIndexes_of (ImportedTable s c attrs) = Some (globalIndexes attrs)"

section \<open>The four stacks\<close>

text \<open>
  The entry point imports the four classes from \<^verbatim>\<open>lib/producer\<close>,
  \<^verbatim>\<open>lib/consumer-with-csr\<close>, \<^verbatim>\<open>lib/producer-config-based\<close> and
  \<^verbatim>\<open>lib/consumer-config-based\<close>. A class with a public attribute is a record that
  extends \<open>Stack\<close> by that attribute; a constructor returns the instance and the scope
  with the new stack added. (In the source tree the text of \<^verbatim>\<open>lib/producer\<close>
  follows that of \<^verbatim>\<open>lib/consumer-config-based\<close> in one file, and the text of
  \<^verbatim>\<open>lib/producer-config-based\<close> follows that of \<^verbatim>\<open>lib/consumer-with-csr\<close>.)
\<close>

subsection \<open>UserServiceStack (lib/producer)\<close>

record UserServiceStack = Stack +
  usersTable :: ITableV2

definition new_UserServiceStack ::
  "App \<Rightarrow> string \<Rightarrow> StackProps option \<Rightarrow> UserServiceStack \<times> App" where
  "new_UserServiceStack scope i props =
     (let this = new_Stack i props;
          (table, this) = new_TableV2 this ''UsersTable''
             \<lparr>TablePropsV2.tableName = ''Users'',
              partitionKey = \<lparr>name = ''PK'', type = STRING\<rparr>\<rparr>
      in (Stack.extend this \<lparr>UserServiceStack.usersTable = table\<rparr>, addChild scope this))"

subsection \<open>OrderServiceStack (lib/consumer-with-csr)\<close>

record OrderServiceStackProps = StackProps +
  usersTable :: ITableV2

definition new_OrderServiceStack ::
  "App \<Rightarrow> string \<Rightarrow> OrderServiceStackProps \<Rightarrow> Stack \<times> App" where
  "new_OrderServiceStack scope i props =
     (let this = new_Stack i (Some (StackProps.truncate props));
          (readUser, this) = new_NodejsFunction this ''OrderFunction''
             \<lparr>entry = ''./lib/lambdas/handler.ts'',
              environment =
                [(''USER_TABLE'', tableName_of (OrderServiceStackProps.usersTable props))]\<rparr>;
          this = grantReadData (OrderServiceStackProps.usersTable props) readUser this
      in (this, addChild scope this))"

subsection \<open>ConfigBasedUserServiceStack (lib/producer-config-based)\<close>

record UserServiceStackProps = StackProps +
  usersTableName :: string

record ConfigBasedUserServiceStack = Stack +
  usersTable :: ITableV2

definition new_ConfigBasedUserServiceStack ::
  "App \<Rightarrow> string \<Rightarrow> UserServiceStackProps \<Rightarrow> ConfigBasedUserServiceStack \<times> App" where
  "new_ConfigBasedUserServiceStack scope i props =
     (let this = new_Stack i (Some (StackProps.truncate props));
          (table, this) = new_TableV2 this ''UsersTable''
             \<lparr>TablePropsV2.tableName = UserServiceStackProps.usersTableName props,
              partitionKey = \<lparr>name = ''PK'', type = STRING\<rparr>\<rparr>
      in (Stack.extend this \<lparr>ConfigBasedUserServiceStack.usersTable = table\<rparr>,
          addChild scope this))"

subsection \<open>ConfigBasedOrderServiceStack (lib/consumer-config-based)\<close>

record ConfigBasedOrderServiceStackProps = StackProps +
  usersTableName :: tvalue

definition new_ConfigBasedOrderServiceStack ::
  "App \<Rightarrow> string \<Rightarrow> ConfigBasedOrderServiceStackProps \<Rightarrow> Stack \<times> App" where
  "new_ConfigBasedOrderServiceStack scope i props =
     (let this = new_Stack i (Some (StackProps.truncate props));
          (usersTable, this) = fromTableAttributes this ''ImportedUsersTable''
             \<lparr>TableAttributesV2.tableName =
                ConfigBasedOrderServiceStackProps.usersTableName props,
              globalIndexes = []\<rparr>;
          (readUser, this) = new_NodejsFunction this ''OrderFunction''
             \<lparr>entry = ''./lib/lambdas/handler.ts'',
              environment =
                [(''USER_TABLE_NAME'',
                  ConfigBasedOrderServiceStackProps.usersTableName props)]\<rparr>;
          this = grantReadData usersTable readUser this
      in (this, addChild scope this))"

subsection \<open>The entry point (bin/problemStack.ts)\<close>

text \<open>The constant \<^verbatim>\<open>tableName\<close> is the string literal \<^verbatim>\<open>"Users"\<close>.\<close>

definition problemStack :: App where
  "problemStack =
     (let app = new_App;
          (userServiceStack, app) = new_UserServiceStack app ''UserService'' None;
          (orderServiceStack, app) = new_OrderServiceStack app ''OrderService''
             \<lparr>description = None, terminationProtection = None,
              OrderServiceStackProps.usersTable =
                UserServiceStack.usersTable userServiceStack\<rparr>;
          tableName = ''Users'';
          (configBasedUserServiceStack, app) =
             new_ConfigBasedUserServiceStack app ''ConfigBasedUserService''
               \<lparr>description = None, terminationProtection = None,
                UserServiceStackProps.usersTableName = tableName\<rparr>;
          (configBasedOrderServiceStack, app) =
             new_ConfigBasedOrderServiceStack app ''ConfigBasedOrderService''
               \<lparr>description = None, terminationProtection = None,
                ConfigBasedOrderServiceStackProps.usersTableName = Literal tableName\<rparr>
      in app)"

section \<open>Generated artifacts\<close>

text \<open>
  What a stack's definition refers to: the table resources (stack id, construct id) that
  its function environments and its grants mention. A handle obtained by
  \<^verbatim>\<open>fromTableAttributes\<close> refers to what the name it was built from refers to:
  nothing when the name is a literal. A reference is kept at the granularity of the
  resource, as in the narrative (cross-stack-references-obsidian.md), which shows one
  export of the table: the name and the address of a table are not told apart.
\<close>

fun valueRefs :: "tvalue \<Rightarrow> (string \<times> string) list" where
  "valueRefs (Literal s) = []"
| "valueRefs (TableNameOf s c) = [(s, c)]"

fun tableRefs :: "ITableV2 \<Rightarrow> (string \<times> string) list" where
  "tableRefs (DefinedTable s c) = [(s, c)]"
| "tableRefs (ImportedTable s c attrs) = valueRefs (TableAttributesV2.tableName attrs)"

fun constructRefs :: "construct \<Rightarrow> (string \<times> string) list" where
  "constructRefs (TableResource i props) = []"
| "constructRefs (TableImport i attrs) = []"
| "constructRefs (FunctionResource i props) =
     concat (map (\<lambda>kv. valueRefs (snd kv)) (environment props))"
| "constructRefs (ReadGrant table grantee) = tableRefs table"

definition references :: "'a Stack_scheme \<Rightarrow> (string \<times> string) list" where
  "references st = remdups (concat (map constructRefs (children st)))"

definition crossStackReferences :: "'a Stack_scheme \<Rightarrow> (string \<times> string) list" where
  "crossStackReferences st = filter (\<lambda>r. fst r \<noteq> stackId st) (references st)"

text \<open>
  The narrative names the export of the table of stack \<^verbatim>\<open>UserService\<close>
  \<^verbatim>\<open>UserService:ExportsOutputRefUsersTable\<close> (followed by hashes, left out here as
  in the narrative's own import line).
\<close>

definition exportName :: "string \<times> string \<Rightarrow> string" where
  "exportName r = fst r @ '':ExportsOutputRef'' @ snd r"

fun tableDefinition :: "construct \<Rightarrow> (string \<times> TablePropsV2) list" where
  "tableDefinition (TableResource i props) = [(i, props)]"
| "tableDefinition (TableImport i attrs) = []"
| "tableDefinition (FunctionResource i props) = []"
| "tableDefinition (ReadGrant table grantee) = []"

definition tables :: "'a Stack_scheme \<Rightarrow> (string \<times> TablePropsV2) list" where
  "tables st = concat (map tableDefinition (children st))"

fun functionDefinition :: "construct \<Rightarrow> (string \<times> NodejsFunctionProps) list" where
  "functionDefinition (TableResource i props) = []"
| "functionDefinition (TableImport i attrs) = []"
| "functionDefinition (FunctionResource i props) = [(i, props)]"
| "functionDefinition (ReadGrant table grantee) = []"

definition functionResources :: "'a Stack_scheme \<Rightarrow> (string \<times> NodejsFunctionProps) list" where
  "functionResources st = concat (map functionDefinition (children st))"

fun grantDeclaration :: "construct \<Rightarrow> (ITableV2 \<times> IFunction) list" where
  "grantDeclaration (TableResource i props) = []"
| "grantDeclaration (TableImport i attrs) = []"
| "grantDeclaration (FunctionResource i props) = []"
| "grantDeclaration (ReadGrant table grantee) = [(table, grantee)]"

definition readGrants :: "'a Stack_scheme \<Rightarrow> (ITableV2 \<times> IFunction) list" where
  "readGrants st = concat (map grantDeclaration (children st))"

fun importDeclaration :: "construct \<Rightarrow> (string \<times> TableAttributesV2) list" where
  "importDeclaration (TableResource i props) = []"
| "importDeclaration (TableImport i attrs) = [(i, attrs)]"
| "importDeclaration (FunctionResource i props) = []"
| "importDeclaration (ReadGrant table grantee) = []"

definition tableImports :: "'a Stack_scheme \<Rightarrow> (string \<times> TableAttributesV2) list" where
  "tableImports st = concat (map importDeclaration (children st))"

text \<open>A handle denotes a table that the stack itself defines.\<close>

fun definedIn :: "'a Stack_scheme \<Rightarrow> ITableV2 \<Rightarrow> bool" where
  "definedIn st (DefinedTable s c) = (s = stackId st \<and> c \<in> set (map fst (tables st)))"
| "definedIn st (ImportedTable s c attrs) = False"

text \<open>A function handle denotes a function that the stack itself defines.\<close>

fun definesFunction :: "'a Stack_scheme \<Rightarrow> IFunction \<Rightarrow> bool" where
  "definesFunction st (DefinedFunction s c) =
     (s = stackId st \<and> c \<in> set (map fst (functionResources st)))"

text \<open>The table-creating definitions of a whole tree: stack id, construct id, table name.\<close>

definition tableDefinitions :: "App \<Rightarrow> (string \<times> string \<times> string) list" where
  "tableDefinitions app =
     concat (map (\<lambda>st. map (\<lambda>d. (stackId st, fst d, TablePropsV2.tableName (snd d)))
                          (tables st)) (stacks app))"

definition producers :: "App \<Rightarrow> string \<Rightarrow> (string \<times> string \<times> string) list" where
  "producers app n = filter (\<lambda>d. snd (snd d) = n) (tableDefinitions app)"

definition physicalName :: "'a Stack_scheme \<Rightarrow> string \<Rightarrow> string option" where
  "physicalName st c = map_option TablePropsV2.tableName (map_of (tables st) c)"

text \<open>
  A stack exports a reference to one of its resources when another stack of the tree
  refers to it: the framework adds the export by itself.
\<close>

definition exportedRefs :: "App \<Rightarrow> Stack \<Rightarrow> (string \<times> string) list" where
  "exportedRefs app st =
     remdups (filter (\<lambda>r. fst r = stackId st)
        (concat (map crossStackReferences (stacks app))))"

record Template =
  exported :: "(string \<times> string) list"
  imported :: "string list"

definition exportOf :: "Stack \<Rightarrow> string \<times> string \<Rightarrow> (string \<times> string) list" where
  "exportOf st r =
     (case physicalName st (snd r) of None \<Rightarrow> [] | Some n \<Rightarrow> [(exportName r, n)])"

definition synth :: "App \<Rightarrow> Stack \<Rightarrow> Template" where
  "synth app st =
     \<lparr>exported = concat (map (exportOf st) (exportedRefs app st)),
      imported = map exportName (crossStackReferences st)\<rparr>"

definition findStack :: "App \<Rightarrow> string \<Rightarrow> Stack option" where
  "findStack app s = find (\<lambda>st. stackId st = s) (stacks app)"

definition environments :: "'a Stack_scheme \<Rightarrow> (string \<times> tvalue) list" where
  "environments st = concat (map (\<lambda>f. environment (snd f)) (functionResources st))"

definition artifacts :: "App \<Rightarrow> (string \<times> Template) list" where
  "artifacts app = map (\<lambda>st. (stackId st, synth app st)) (stacks app)"

section \<open>The configuration-based consuming unit as the specification describes it\<close>

text \<open>
  The specification describes the direct-reference consuming unit as: given a table handle,
  define one function whose runtime configuration includes the table's name, and declare a
  read grant from that function to the table. These are the steps of
  \<open>new_OrderServiceStack\<close> after the call of the base constructor.
\<close>

definition consumerSteps :: "ITableV2 \<Rightarrow> Stack \<Rightarrow> Stack" where
  "consumerSteps table this =
     (let (readUser, this) = new_NodejsFunction this ''OrderFunction''
             \<lparr>entry = ''./lib/lambdas/handler.ts'',
              environment = [(''USER_TABLE'', tableName_of table)]\<rparr>
      in grantReadData table readUser this)"

text \<open>
  The configuration-based consuming unit in the specification's words: re-resolve a handle
  from the name by an import by attributes, then proceed identically to the
  direct-reference consuming unit.
\<close>

definition spec_ConfigBasedOrderServiceStack ::
  "App \<Rightarrow> string \<Rightarrow> ConfigBasedOrderServiceStackProps \<Rightarrow> Stack \<times> App" where
  "spec_ConfigBasedOrderServiceStack scope i props =
     (let this = new_Stack i (Some (StackProps.truncate props));
          (usersTable, this) = fromTableAttributes this ''ImportedUsersTable''
             \<lparr>TableAttributesV2.tableName =
                ConfigBasedOrderServiceStackProps.usersTableName props,
              globalIndexes = []\<rparr>;
          this = consumerSteps usersTable this
      in (this, addChild scope this))"

fun renameVariable :: "string \<Rightarrow> string \<Rightarrow> construct \<Rightarrow> construct" where
  "renameVariable a b (TableResource i props) = TableResource i props"
| "renameVariable a b (TableImport i attrs) = TableImport i attrs"
| "renameVariable a b (FunctionResource i props) =
     FunctionResource i
       (props\<lparr>environment :=
          map (\<lambda>kv. (if fst kv = a then b else fst kv, snd kv)) (environment props)\<rparr>)"
| "renameVariable a b (ReadGrant table grantee) = ReadGrant table grantee"

definition renameVariables :: "string \<Rightarrow> string \<Rightarrow> Stack \<Rightarrow> Stack" where
  "renameVariables a b st = st\<lparr>children := map (renameVariable a b) (children st)\<rparr>"

section \<open>What the constructors build\<close>

lemmas framework_defs =
  new_App_def new_Stack_def addChild_def addConstruct_def new_TableV2_def
  fromTableAttributes_def new_NodejsFunction_def grantReadData_def Let_def

lemmas stack_defs =
  new_UserServiceStack_def new_OrderServiceStack_def
  new_ConfigBasedUserServiceStack_def new_ConfigBasedOrderServiceStack_def

lemmas view_defs =
  tables_def functionResources_def readGrants_def tableImports_def environments_def

lemmas synth_defs =
  synth_def exportedRefs_def exportOf_def exportName_def physicalName_def tables_def
  crossStackReferences_def references_def findStack_def

lemma UserServiceStack_children:
  "children (fst (new_UserServiceStack scope i props)) =
     [TableResource ''UsersTable''
        \<lparr>TablePropsV2.tableName = ''Users'',
         partitionKey = \<lparr>name = ''PK'', type = STRING\<rparr>\<rparr>]"
  by (simp add: new_UserServiceStack_def framework_defs Stack.extend_def)

lemma OrderServiceStack_children:
  "children (fst (new_OrderServiceStack scope i props)) =
     [FunctionResource ''OrderFunction''
        \<lparr>entry = ''./lib/lambdas/handler.ts'',
         environment =
           [(''USER_TABLE'', tableName_of (OrderServiceStackProps.usersTable props))]\<rparr>,
      ReadGrant (OrderServiceStackProps.usersTable props)
        (DefinedFunction i ''OrderFunction'')]"
  by (simp add: new_OrderServiceStack_def framework_defs)

lemma ConfigBasedUserServiceStack_children:
  "children (fst (new_ConfigBasedUserServiceStack scope i props)) =
     [TableResource ''UsersTable''
        \<lparr>TablePropsV2.tableName = UserServiceStackProps.usersTableName props,
         partitionKey = \<lparr>name = ''PK'', type = STRING\<rparr>\<rparr>]"
  by (simp add: new_ConfigBasedUserServiceStack_def framework_defs Stack.extend_def)

lemma ConfigBasedOrderServiceStack_children:
  "children (fst (new_ConfigBasedOrderServiceStack scope i props)) =
     [TableImport ''ImportedUsersTable''
        \<lparr>TableAttributesV2.tableName =
           ConfigBasedOrderServiceStackProps.usersTableName props,
         globalIndexes = []\<rparr>,
      FunctionResource ''OrderFunction''
        \<lparr>entry = ''./lib/lambdas/handler.ts'',
         environment =
           [(''USER_TABLE_NAME'',
             ConfigBasedOrderServiceStackProps.usersTableName props)]\<rparr>,
      ReadGrant
        (ImportedTable i ''ImportedUsersTable''
           \<lparr>TableAttributesV2.tableName =
              ConfigBasedOrderServiceStackProps.usersTableName props,
            globalIndexes = []\<rparr>)
        (DefinedFunction i ''OrderFunction'')]"
  by (simp add: new_ConfigBasedOrderServiceStack_def framework_defs)

lemma stackId_constructed:
  "stackId (fst (new_UserServiceStack scope i sprops)) = i"
  "stackId (fst (new_OrderServiceStack scope i oprops)) = i"
  "stackId (fst (new_ConfigBasedUserServiceStack scope i uprops)) = i"
  "stackId (fst (new_ConfigBasedOrderServiceStack scope i cprops)) = i"
  by (simp_all add: stack_defs framework_defs Stack.extend_def)

text \<open>Every constructor appends the stack it has built to the scope.\<close>

lemma registered:
  "stacks (snd (new_UserServiceStack scope i sprops)) =
     stacks scope @ [Stack.truncate (fst (new_UserServiceStack scope i sprops))]"
  "stacks (snd (new_OrderServiceStack scope i oprops)) =
     stacks scope @ [fst (new_OrderServiceStack scope i oprops)]"
  "stacks (snd (new_ConfigBasedUserServiceStack scope i uprops)) =
     stacks scope @ [Stack.truncate (fst (new_ConfigBasedUserServiceStack scope i uprops))]"
  "stacks (snd (new_ConfigBasedOrderServiceStack scope i cprops)) =
     stacks scope @ [fst (new_ConfigBasedOrderServiceStack scope i cprops)]"
  by (simp_all add: stack_defs framework_defs Stack.extend_def Stack.truncate_def)

lemma UserServiceStack_usersTable:
  "UserServiceStack.usersTable (fst (new_UserServiceStack scope i props)) =
     DefinedTable i ''UsersTable''"
  by (simp add: new_UserServiceStack_def framework_defs Stack.extend_def)

lemma ConfigBasedUserServiceStack_usersTable:
  "ConfigBasedUserServiceStack.usersTable
     (fst (new_ConfigBasedUserServiceStack scope i props)) = DefinedTable i ''UsersTable''"
  by (simp add: new_ConfigBasedUserServiceStack_def framework_defs Stack.extend_def)

text \<open>The steps singled out for the specification are those of the direct-reference unit.\<close>

lemma OrderServiceStack_consumerSteps:
  "new_OrderServiceStack scope i props =
     (let this = consumerSteps (OrderServiceStackProps.usersTable props)
                   (new_Stack i (Some (StackProps.truncate props)))
      in (this, addChild scope this))"
  by (simp add: new_OrderServiceStack_def consumerSteps_def Let_def split: prod.splits)

section \<open>The definition tree of the entry point and its artifacts\<close>

lemma problemStack_stacks:
  "stacks problemStack =
     [\<lparr>stackId = ''UserService'', stackProps = None,
       children =
         [TableResource ''UsersTable''
            \<lparr>TablePropsV2.tableName = ''Users'',
             partitionKey = \<lparr>name = ''PK'', type = STRING\<rparr>\<rparr>]\<rparr>,
      \<lparr>stackId = ''OrderService'',
       stackProps = Some \<lparr>description = None, terminationProtection = None\<rparr>,
       children =
         [FunctionResource ''OrderFunction''
            \<lparr>entry = ''./lib/lambdas/handler.ts'',
             environment = [(''USER_TABLE'', TableNameOf ''UserService'' ''UsersTable'')]\<rparr>,
          ReadGrant (DefinedTable ''UserService'' ''UsersTable'')
            (DefinedFunction ''OrderService'' ''OrderFunction'')]\<rparr>,
      \<lparr>stackId = ''ConfigBasedUserService'',
       stackProps = Some \<lparr>description = None, terminationProtection = None\<rparr>,
       children =
         [TableResource ''UsersTable''
            \<lparr>TablePropsV2.tableName = ''Users'',
             partitionKey = \<lparr>name = ''PK'', type = STRING\<rparr>\<rparr>]\<rparr>,
      \<lparr>stackId = ''ConfigBasedOrderService'',
       stackProps = Some \<lparr>description = None, terminationProtection = None\<rparr>,
       children =
         [TableImport ''ImportedUsersTable''
            \<lparr>TableAttributesV2.tableName = Literal ''Users'', globalIndexes = []\<rparr>,
          FunctionResource ''OrderFunction''
            \<lparr>entry = ''./lib/lambdas/handler.ts'',
             environment = [(''USER_TABLE_NAME'', Literal ''Users'')]\<rparr>,
          ReadGrant
            (ImportedTable ''ConfigBasedOrderService'' ''ImportedUsersTable''
               \<lparr>TableAttributesV2.tableName = Literal ''Users'', globalIndexes = []\<rparr>)
            (DefinedFunction ''ConfigBasedOrderService'' ''OrderFunction'')]\<rparr>]"
  by (simp add: problemStack_def stack_defs framework_defs Stack.extend_def
      StackProps.truncate_def)

lemma problemStack_artifacts:
  "artifacts problemStack =
     [(''UserService'',
       \<lparr>exported = [(''UserService:ExportsOutputRefUsersTable'', ''Users'')],
        imported = []\<rparr>),
      (''OrderService'',
       \<lparr>exported = [], imported = [''UserService:ExportsOutputRefUsersTable'']\<rparr>),
      (''ConfigBasedUserService'', \<lparr>exported = [], imported = []\<rparr>),
      (''ConfigBasedOrderService'', \<lparr>exported = [], imported = []\<rparr>)]"
  by (simp add: artifacts_def problemStack_stacks synth_defs)

lemma problemStack_tableDefinitions:
  "tableDefinitions problemStack =
     [(''UserService'', ''UsersTable'', ''Users''),
      (''ConfigBasedUserService'', ''UsersTable'', ''Users'')]"
  by (simp add: tableDefinitions_def problemStack_stacks tables_def)

section \<open>The producing units\<close>

text \<open>
  C1, as stated: the configuration-based producing unit has no public attribute through
  which another unit can obtain a reference to the table it defines. The class declares
  \<^verbatim>\<open>public readonly usersTable: ITableV2\<close> and assigns the new table to it: built
  with the name \<^verbatim>\<open>Users\<close>, the unit's attribute \<open>usersTable\<close> is a handle to the
  table that the unit itself defines.
\<close>

theorem config_producer_handle_counterexample:
  "definedIn
     (fst (new_ConfigBasedUserServiceStack new_App ''ConfigBasedUserService''
        \<lparr>description = None, terminationProtection = None,
         UserServiceStackProps.usersTableName = ''Users''\<rparr>))
     (ConfigBasedUserServiceStack.usersTable
        (fst (new_ConfigBasedUserServiceStack new_App ''ConfigBasedUserService''
           \<lparr>description = None, terminationProtection = None,
            UserServiceStackProps.usersTableName = ''Users''\<rparr>)))"
  by (simp add: new_ConfigBasedUserServiceStack_def framework_defs Stack.extend_def
      StackProps.truncate_def tables_def)

text \<open>
  C1, amended: for every props the configuration-based producing unit defines one table
  named by \<open>usersTableName\<close> and, like the direct-reference producing unit, exposes
  its handle as the public attribute \<open>usersTable\<close>. The entry point does not pass
  that handle on: no stack of the composed tree refers to a resource of
  \<^verbatim>\<open>ConfigBasedUserService\<close>, and its artifact exports nothing.
\<close>

theorem config_producer_handle_exposed_unused:
  "ConfigBasedUserServiceStack.usersTable
     (fst (new_ConfigBasedUserServiceStack scope i props)) = DefinedTable i ''UsersTable'' \<and>
   definedIn (fst (new_ConfigBasedUserServiceStack scope i props))
     (ConfigBasedUserServiceStack.usersTable
        (fst (new_ConfigBasedUserServiceStack scope i props))) \<and>
   physicalName (fst (new_ConfigBasedUserServiceStack scope i props)) ''UsersTable'' =
     Some (UserServiceStackProps.usersTableName props) \<and>
   filter (\<lambda>r. fst r = ''ConfigBasedUserService'')
     (concat (map references (stacks problemStack))) = [] \<and>
   map_option exported (map_of (artifacts problemStack) ''ConfigBasedUserService'') = Some []"
  by (simp add: ConfigBasedUserServiceStack_usersTable ConfigBasedUserServiceStack_children
      stackId_constructed physicalName_def tables_def problemStack_stacks references_def
      problemStack_artifacts)

text \<open>
  C2, as stated: in the tree composed by the entry point the table name
  \<^verbatim>\<open>Users\<close> has exactly one table-creating definition. It has two: the entry point
  builds both producing units in one tree and gives both tables the name \<^verbatim>\<open>Users\<close>.
\<close>

theorem one_producer_per_name_counterexample:
  "length (producers problemStack ''Users'') \<noteq> 1"
  by (simp add: producers_def problemStack_tableDefinitions)

text \<open>
  C2, amended: every producing unit constructs exactly one table-creating definition and
  every consuming unit none, so in the composed tree each of the two pairs has exactly one
  table-creating definition; both are named \<^verbatim>\<open>Users\<close>, which therefore has two
  table-creating definitions in the tree, one in \<^verbatim>\<open>UserService\<close> and one in
  \<^verbatim>\<open>ConfigBasedUserService\<close>.
\<close>

theorem one_table_per_producing_unit:
  "tableDefinitions problemStack =
     [(''UserService'', ''UsersTable'', ''Users''),
      (''ConfigBasedUserService'', ''UsersTable'', ''Users'')] \<and>
   producers problemStack ''Users'' = tableDefinitions problemStack \<and>
   map (\<lambda>st. (stackId st, length (tables st))) (stacks problemStack) =
     [(''UserService'', 1), (''OrderService'', 0),
      (''ConfigBasedUserService'', 1), (''ConfigBasedOrderService'', 0)] \<and>
   map (\<lambda>d. TablePropsV2.tableName (snd d))
     (tables (fst (new_UserServiceStack scope i sprops))) = [''Users''] \<and>
   map (\<lambda>d. TablePropsV2.tableName (snd d))
     (tables (fst (new_ConfigBasedUserServiceStack scope i uprops))) =
     [UserServiceStackProps.usersTableName uprops] \<and>
   tables (fst (new_OrderServiceStack scope i oprops)) = [] \<and>
   tables (fst (new_ConfigBasedOrderServiceStack scope i cprops)) = []"
  by (simp add: producers_def problemStack_tableDefinitions problemStack_stacks tables_def
      UserServiceStack_children ConfigBasedUserServiceStack_children
      OrderServiceStack_children ConfigBasedOrderServiceStack_children)

section \<open>The consuming units\<close>

text \<open>
  C3, as stated: in both pairs the function of the consuming unit has an environment
  variable whose value is the literal string \<^verbatim>\<open>Users\<close>. In the direct-reference pair
  the value is \<^verbatim>\<open>props.usersTable.tableName\<close>, read from the handle of the producing
  unit's table: a reference, which the narrative shows as an \<^verbatim>\<open>Fn::ImportValue\<close> in
  the generated artifact. No environment value of \<^verbatim>\<open>OrderService\<close> is the literal.
\<close>

theorem environment_literal_counterexample:
  "map_option (\<lambda>st. Literal ''Users'' \<in> set (map snd (environments st)))
     (findStack problemStack ''OrderService'') = Some False"
  by (simp add: findStack_def problemStack_stacks environments_def functionResources_def)

text \<open>
  C3, amended: in both pairs as wired by the entry point the function of the consuming
  unit has an environment variable that names the table. In the configuration-based pair
  it is \<^verbatim>\<open>USER_TABLE_NAME\<close> and its value is the literal string
  \<^verbatim>\<open>Users\<close>. In the direct-reference pair it is \<^verbatim>\<open>USER_TABLE\<close> and its value
  is \<^verbatim>\<open>props.usersTable.tableName\<close>: not the string but a reference to the name of
  the table \<^verbatim>\<open>UsersTable\<close> that the producing unit \<^verbatim>\<open>UserService\<close> defines
  with the table name \<^verbatim>\<open>Users\<close>, carried by the consuming unit's artifact as an
  import of the producing unit's export.
\<close>

theorem environment_names_Users:
  "map_option (\<lambda>st. map_of (environments st) ''USER_TABLE'')
     (findStack problemStack ''OrderService'') =
     Some (Some (TableNameOf ''UserService'' ''UsersTable'')) \<and>
   map_option (\<lambda>st. physicalName st ''UsersTable'') (findStack problemStack ''UserService'') =
     Some (Some ''Users'') \<and>
   map_option (\<lambda>st. exportName (''UserService'', ''UsersTable'')
                        \<in> set (imported (synth problemStack st)))
     (findStack problemStack ''OrderService'') = Some True \<and>
   map_option (\<lambda>st. map_of (environments st) ''USER_TABLE_NAME'')
     (findStack problemStack ''ConfigBasedOrderService'') = Some (Some (Literal ''Users''))"
  by (simp add: findStack_def problemStack_stacks environments_def functionResources_def
      physicalName_def tables_def synth_def crossStackReferences_def references_def)

text \<open>
  C4, as stated: for every table name string supplied, the configuration-based consuming
  unit contains no import of, or reference to, the producing unit's definition. The props
  type the name as \<^verbatim>\<open>string\<close>, and the name of the producing unit's table read from
  its handle, \<^verbatim>\<open>producer.usersTable.tableName\<close>, is such a string: supplied with it,
  the consuming unit refers to the producing unit's table and its artifact imports the
  producing unit's export.
\<close>

theorem config_consumer_reference_counterexample:
  "references
     (fst (new_ConfigBasedOrderServiceStack
        (snd (new_ConfigBasedUserServiceStack new_App ''ConfigBasedUserService''
           \<lparr>description = None, terminationProtection = None,
            UserServiceStackProps.usersTableName = ''Users''\<rparr>))
        ''ConfigBasedOrderService''
        \<lparr>description = None, terminationProtection = None,
         ConfigBasedOrderServiceStackProps.usersTableName =
           tableName_of (ConfigBasedUserServiceStack.usersTable
             (fst (new_ConfigBasedUserServiceStack new_App ''ConfigBasedUserService''
                \<lparr>description = None, terminationProtection = None,
                 UserServiceStackProps.usersTableName = ''Users''\<rparr>)))\<rparr>)) =
     [(''ConfigBasedUserService'', ''UsersTable'')] \<and>
   artifacts
     (snd (new_ConfigBasedOrderServiceStack
        (snd (new_ConfigBasedUserServiceStack new_App ''ConfigBasedUserService''
           \<lparr>description = None, terminationProtection = None,
            UserServiceStackProps.usersTableName = ''Users''\<rparr>))
        ''ConfigBasedOrderService''
        \<lparr>description = None, terminationProtection = None,
         ConfigBasedOrderServiceStackProps.usersTableName =
           tableName_of (ConfigBasedUserServiceStack.usersTable
             (fst (new_ConfigBasedUserServiceStack new_App ''ConfigBasedUserService''
                \<lparr>description = None, terminationProtection = None,
                 UserServiceStackProps.usersTableName = ''Users''\<rparr>)))\<rparr>)) =
     [(''ConfigBasedUserService'',
       \<lparr>exported = [(exportName (''ConfigBasedUserService'', ''UsersTable''), ''Users'')],
        imported = []\<rparr>),
      (''ConfigBasedOrderService'',
       \<lparr>exported = [],
        imported = [exportName (''ConfigBasedUserService'', ''UsersTable'')]\<rparr>)]"
  by (simp add: new_ConfigBasedOrderServiceStack_def new_ConfigBasedUserServiceStack_def
      framework_defs Stack.extend_def StackProps.truncate_def artifacts_def synth_defs)

text \<open>
  C4, amended: the configuration-based consuming unit refers to exactly what the name
  string it is given refers to, for every scope, id and props. So for every literal name
  (a string that is not itself a reference to a resource) its definition contains no
  reference to the producing unit's definition or to any other stack, and its artifact
  imports nothing whatever tree it is synthesised in. Given only the literal
  \<^verbatim>\<open>Users\<close>, each of the two configuration-based units alone in a fresh tree has an
  artifact without exports and imports, and so have both in the tree of the entry point.
\<close>

theorem config_consumer_independent:
  "references (fst (new_ConfigBasedOrderServiceStack scope i props)) =
     valueRefs (ConfigBasedOrderServiceStackProps.usersTableName props) \<and>
   references (fst (new_ConfigBasedOrderServiceStack scope i
      (props\<lparr>ConfigBasedOrderServiceStackProps.usersTableName := Literal n\<rparr>))) = [] \<and>
   imported (synth app (fst (new_ConfigBasedOrderServiceStack scope i
      (props\<lparr>ConfigBasedOrderServiceStackProps.usersTableName := Literal n\<rparr>)))) = [] \<and>
   artifacts (snd (new_ConfigBasedOrderServiceStack new_App ''ConfigBasedOrderService''
      \<lparr>description = None, terminationProtection = None,
       ConfigBasedOrderServiceStackProps.usersTableName = Literal ''Users''\<rparr>)) =
     [(''ConfigBasedOrderService'', \<lparr>exported = [], imported = []\<rparr>)] \<and>
   artifacts (snd (new_ConfigBasedUserServiceStack new_App ''ConfigBasedUserService''
      \<lparr>description = None, terminationProtection = None,
       UserServiceStackProps.usersTableName = ''Users''\<rparr>)) =
     [(''ConfigBasedUserService'', \<lparr>exported = [], imported = []\<rparr>)] \<and>
   filter (\<lambda>d. fst d \<in> set [''ConfigBasedUserService'', ''ConfigBasedOrderService''])
     (artifacts problemStack) =
     [(''ConfigBasedUserService'', \<lparr>exported = [], imported = []\<rparr>),
      (''ConfigBasedOrderService'', \<lparr>exported = [], imported = []\<rparr>)]"
proof -
  have g: "references (fst (new_ConfigBasedOrderServiceStack scope i q)) =
           valueRefs (ConfigBasedOrderServiceStackProps.usersTableName q)" for q
    by (cases "ConfigBasedOrderServiceStackProps.usersTableName q")
       (simp_all add: references_def ConfigBasedOrderServiceStack_children)
  have r: "references (fst (new_ConfigBasedOrderServiceStack scope i
      (props\<lparr>ConfigBasedOrderServiceStackProps.usersTableName := Literal n\<rparr>))) = []"
    by (simp add: g)
  have a1: "artifacts (snd (new_ConfigBasedOrderServiceStack new_App ''ConfigBasedOrderService''
      \<lparr>description = None, terminationProtection = None,
       ConfigBasedOrderServiceStackProps.usersTableName = Literal ''Users''\<rparr>)) =
     [(''ConfigBasedOrderService'', \<lparr>exported = [], imported = []\<rparr>)]"
    by (simp add: artifacts_def new_ConfigBasedOrderServiceStack_def framework_defs synth_defs)
  have a2: "artifacts (snd (new_ConfigBasedUserServiceStack new_App ''ConfigBasedUserService''
      \<lparr>description = None, terminationProtection = None,
       UserServiceStackProps.usersTableName = ''Users''\<rparr>)) =
     [(''ConfigBasedUserService'', \<lparr>exported = [], imported = []\<rparr>)]"
    by (simp add: artifacts_def new_ConfigBasedUserServiceStack_def framework_defs synth_defs)
  from g [of props] r a1 a2 show ?thesis
    by (simp add: synth_def crossStackReferences_def problemStack_artifacts)
qed

text \<open>
  C5, as stated: after re-resolving the handle, the configuration-based consuming unit
  performs the same steps as the direct-reference consuming unit and differs only in
  how the handle is obtained. The two definitions also differ in the key of the
  environment variable: \<^verbatim>\<open>USER_TABLE_NAME\<close> against \<^verbatim>\<open>USER_TABLE\<close>.
\<close>

theorem config_consumer_identical_counterexample:
  "new_ConfigBasedOrderServiceStack new_App ''ConfigBasedOrderService''
     \<lparr>description = None, terminationProtection = None,
      ConfigBasedOrderServiceStackProps.usersTableName = Literal ''Users''\<rparr> \<noteq>
   spec_ConfigBasedOrderServiceStack new_App ''ConfigBasedOrderService''
     \<lparr>description = None, terminationProtection = None,
      ConfigBasedOrderServiceStackProps.usersTableName = Literal ''Users''\<rparr>"
  by (simp add: new_ConfigBasedOrderServiceStack_def spec_ConfigBasedOrderServiceStack_def
      consumerSteps_def framework_defs)

text \<open>
  C5, amended: for every table name the configuration-based consuming unit first
  re-resolves a handle from the name by an import by attributes and then performs the steps
  of the direct-reference consuming unit on that handle (one function whose environment
  names the table, one read grant from that function to the table), except that its
  environment variable is called \<^verbatim>\<open>USER_TABLE_NAME\<close> where the direct-reference unit
  calls it \<^verbatim>\<open>USER_TABLE\<close>.
\<close>

theorem config_consumer_refines_direct:
  "fst (new_ConfigBasedOrderServiceStack scope i props) =
     renameVariables ''USER_TABLE'' ''USER_TABLE_NAME''
       (fst (spec_ConfigBasedOrderServiceStack scope i props)) \<and>
   snd (new_ConfigBasedOrderServiceStack scope i props) =
     addChild scope
       (renameVariables ''USER_TABLE'' ''USER_TABLE_NAME''
          (fst (spec_ConfigBasedOrderServiceStack scope i props))) \<and>
   fst (spec_ConfigBasedOrderServiceStack scope i props) =
     consumerSteps
       (fst (fromTableAttributes (new_Stack i (Some (StackProps.truncate props)))
          ''ImportedUsersTable''
          \<lparr>TableAttributesV2.tableName =
             ConfigBasedOrderServiceStackProps.usersTableName props,
           globalIndexes = []\<rparr>))
       (snd (fromTableAttributes (new_Stack i (Some (StackProps.truncate props)))
          ''ImportedUsersTable''
          \<lparr>TableAttributesV2.tableName =
             ConfigBasedOrderServiceStackProps.usersTableName props,
           globalIndexes = []\<rparr>)) \<and>
   fst (new_OrderServiceStack scope i oprops) =
     consumerSteps (OrderServiceStackProps.usersTable oprops)
       (new_Stack i (Some (StackProps.truncate oprops)))"
  by (simp add: new_ConfigBasedOrderServiceStack_def spec_ConfigBasedOrderServiceStack_def
      new_OrderServiceStack_def consumerSteps_def renameVariables_def framework_defs)

text \<open>
  C6: in the tree of the entry point the producing unit \<^verbatim>\<open>UserService\<close> comes before
  the consuming unit \<^verbatim>\<open>OrderService\<close>; its public attribute \<open>usersTable\<close> is
  the handle of the table it defines; the consuming unit is constructed with exactly that
  handle, grants on it and refers to nothing else; so the consuming unit's artifact imports
  exactly the export of the table that the producing unit's artifact declares.
\<close>

theorem direct_reference_coupling:
  "map stackId (stacks problemStack) =
     [''UserService'', ''OrderService'', ''ConfigBasedUserService'',
      ''ConfigBasedOrderService''] \<and>
   UserServiceStack.usersTable (fst (new_UserServiceStack new_App ''UserService'' None)) =
     DefinedTable ''UserService'' ''UsersTable'' \<and>
   definedIn (fst (new_UserServiceStack new_App ''UserService'' None))
     (DefinedTable ''UserService'' ''UsersTable'') \<and>
   findStack problemStack ''OrderService'' =
     Some (fst (new_OrderServiceStack
       (snd (new_UserServiceStack new_App ''UserService'' None)) ''OrderService''
       \<lparr>description = None, terminationProtection = None,
        OrderServiceStackProps.usersTable =
          UserServiceStack.usersTable
            (fst (new_UserServiceStack new_App ''UserService'' None))\<rparr>)) \<and>
   map_option readGrants (findStack problemStack ''OrderService'') =
     Some [(DefinedTable ''UserService'' ''UsersTable'',
            DefinedFunction ''OrderService'' ''OrderFunction'')] \<and>
   map_option references (findStack problemStack ''OrderService'') =
     Some [(''UserService'', ''UsersTable'')] \<and>
   map_option imported (map_of (artifacts problemStack) ''OrderService'') =
     Some [exportName (''UserService'', ''UsersTable'')] \<and>
   map_option exported (map_of (artifacts problemStack) ''UserService'') =
     Some [(exportName (''UserService'', ''UsersTable''), ''Users'')]"
  by (simp add: problemStack_stacks UserServiceStack_usersTable UserServiceStack_children
      stackId_constructed tables_def findStack_def readGrants_def references_def
      problemStack_artifacts exportName_def new_OrderServiceStack_def framework_defs
      StackProps.truncate_def)

text \<open>
  C7: for every scope, id and props, the direct-reference consuming unit declares exactly
  one read grant, from the function \<^verbatim>\<open>OrderFunction\<close> that it defines to the table
  handle it was given; the configuration-based consuming unit declares exactly one read
  grant, from the function \<^verbatim>\<open>OrderFunction\<close> that it defines to the handle that
  \<^verbatim>\<open>fromTableAttributes\<close> returned. Both stacks, with their grants, are what the
  constructor adds to the scope.
\<close>

theorem read_grant_declared:
  "readGrants (fst (new_OrderServiceStack scope i props)) =
     [(OrderServiceStackProps.usersTable props, DefinedFunction i ''OrderFunction'')] \<and>
   definesFunction (fst (new_OrderServiceStack scope i props))
     (DefinedFunction i ''OrderFunction'') \<and>
   stacks (snd (new_OrderServiceStack scope i props)) =
     stacks scope @ [fst (new_OrderServiceStack scope i props)] \<and>
   readGrants (fst (new_ConfigBasedOrderServiceStack scope' i' props')) =
     [(fst (fromTableAttributes
              (new_Stack i' (Some (StackProps.truncate props'))) ''ImportedUsersTable''
              \<lparr>TableAttributesV2.tableName =
                 ConfigBasedOrderServiceStackProps.usersTableName props',
               globalIndexes = []\<rparr>),
       DefinedFunction i' ''OrderFunction'')] \<and>
   definesFunction (fst (new_ConfigBasedOrderServiceStack scope' i' props'))
     (DefinedFunction i' ''OrderFunction'') \<and>
   stacks (snd (new_ConfigBasedOrderServiceStack scope' i' props')) =
     stacks scope' @ [fst (new_ConfigBasedOrderServiceStack scope' i' props')]"
  by (simp add: OrderServiceStack_children ConfigBasedOrderServiceStack_children
      stackId_constructed registered view_defs fromTableAttributes_def new_Stack_def)

text \<open>
  C9: in the configuration-based consuming unit, for every props, the table name given to
  the re-resolution, the value of the function's environment variable
  \<^verbatim>\<open>USER_TABLE_NAME\<close> and the table name of the handle the grant is declared on are
  the same string, \<open>usersTableName props\<close>, be it a literal or a reference.
\<close>

theorem resolved_name_is_environment_name:
  "map (\<lambda>d. TableAttributesV2.tableName (snd d))
     (tableImports (fst (new_ConfigBasedOrderServiceStack scope i props))) =
     [ConfigBasedOrderServiceStackProps.usersTableName props] \<and>
   map_of (environments (fst (new_ConfigBasedOrderServiceStack scope i props)))
     ''USER_TABLE_NAME'' =
     Some (ConfigBasedOrderServiceStackProps.usersTableName props) \<and>
   map (\<lambda>g. tableName_of (fst g))
     (readGrants (fst (new_ConfigBasedOrderServiceStack scope i props))) =
     [ConfigBasedOrderServiceStackProps.usersTableName props]"
  by (simp add: ConfigBasedOrderServiceStack_children view_defs)

text \<open>
  C10: for every scope, id and props (so whatever tables the rest of the tree defines and
  whatever the name is), the configuration-based consuming unit re-resolves the table with
  an empty list of global secondary indexes, and the handle it grants on carries the
  empty list.
\<close>

theorem resolved_without_indexes:
  "map (\<lambda>d. globalIndexes (snd d))
     (tableImports (fst (new_ConfigBasedOrderServiceStack scope i props))) = [[]] \<and>
   map (\<lambda>g. globalIndexes_of (fst g))
     (readGrants (fst (new_ConfigBasedOrderServiceStack scope i props))) = [Some []]"
  by (simp add: ConfigBasedOrderServiceStack_children view_defs)


end
